theory Spec2Isabelle
  imports Complex_Main "HOL-Library.Log_Nat"
begin

section \<open>The cluster health collector\<close>

text \<open>
  A shallow embedding of \<^verbatim>\<open>collector/cluster_health.go\<close>. Go strings are byte strings (\<open>string\<close>), Go's
  \<open>int\<close> fields are \<open>int\<close> (the collector does no arithmetic on them), \<open>float64\<close> values
  are the reals they denote, and an \<open>error\<close> is its message. Mutation of the collector is
  explicit state passing; a channel is the list of what was sent on it, oldest first.
\<close>

subsection \<open>Values of the Go runtime\<close>

type_synonym error = string

text \<open>
  The conversion \<open>float64(n)\<close> of an integer: exact below \<open>2^53\<close>, otherwise rounded to
  a 53-bit significand, to nearest with ties to even.
\<close>

definition float64 :: "int \<Rightarrow> real" where
  "float64 n =
     (let a = \<bar>n\<bar> in
      if a < 2 ^ 53 then of_int n
      else
        let e = nat (bitlen a - 53);
            q = a div 2 ^ e;
            r = a mod 2 ^ e;
            h = 2 ^ (e - 1);
            q' = (if h < r \<or> (r = h \<and> odd q) then q + 1 else q)
        in of_int (sgn n * q' * 2 ^ e))"

text \<open>The verb \<open>%d\<close> of package fmt on an \<open>int\<close>: decimal digits, with a minus sign.\<close>

fun digits :: "nat \<Rightarrow> string" where
  "digits n =
     (if n < 10 then [char_of (48 + n)]
      else digits (n div 10) @ [char_of (48 + n mod 10)])"

definition fmt_d :: "int \<Rightarrow> string" where
  "fmt_d i = (if i < 0 then CHR ''-'' # digits (nat (- i)) else digits (nat i))"

subsection \<open>The data of the collector\<close>

record clusterHealthResponse =
  ClusterName :: string
  Status :: string
  TimedOut :: bool
  NumberOfNodes :: int
  NumberOfDataNodes :: int
  ActivePrimaryShards :: int
  ActiveShards :: int
  RelocatingShards :: int
  InitializingShards :: int
  UnassignedShards :: int
  DelayedUnassignedShards :: int
  NumberOfPendingTasks :: int
  NumberOfInFlightFetch :: int
  TaskMaxWaitingInQueueMillis :: int
  ActiveShardsPercentAsNumber :: real

text \<open>The zero value of the struct, as \<open>var chr clusterHealthResponse\<close> declares it.\<close>

definition zeroClusterHealthResponse :: clusterHealthResponse where
  "zeroClusterHealthResponse =
     \<lparr>ClusterName = [], Status = [], TimedOut = False, NumberOfNodes = 0,
      NumberOfDataNodes = 0, ActivePrimaryShards = 0, ActiveShards = 0,
      RelocatingShards = 0, InitializingShards = 0, UnassignedShards = 0,
      DelayedUnassignedShards = 0, NumberOfPendingTasks = 0, NumberOfInFlightFetch = 0,
      TaskMaxWaitingInQueueMillis = 0, ActiveShardsPercentAsNumber = 0\<rparr>"

text \<open>
  The objects of the metrics library, at their interface. A description carries its fully
  qualified name, its help text and its variable label names (the constant labels are
  \<open>nil\<close> everywhere in this collector). A gauge holds a \<open>float64\<close>; a counter is only
  ever incremented, so its value is the number of \<open>Inc\<close> calls.
\<close>

datatype ValueType = CounterValue | GaugeValue | UntypedValue

record Desc =
  fqName :: string
  helpText :: string
  variableLabels :: "string list"

record Gauge =
  gaugeDesc :: Desc
  gaugeVal :: real

record Counter =
  counterDesc :: Desc
  counterVal :: nat

text \<open>
  What travels on the metrics channel: a constant sample built by
  \<open>MustNewConstMetric\<close> (description, type, value, label values), or one of the
  collector's own gauge and counter objects, with the state it has when it is sent.
\<close>

datatype Metric =
    ConstMetric Desc ValueType real "string list"
  | GaugeMetric Gauge
  | CounterMetric Counter

definition BuildFQName :: "string \<Rightarrow> string \<Rightarrow> string \<Rightarrow> string" where
  "BuildFQName namespace subsystem name =
     (if name = [] then []
      else if namespace \<noteq> [] \<and> subsystem \<noteq> [] then
        namespace @ ''_'' @ subsystem @ ''_'' @ name
      else if namespace \<noteq> [] then namespace @ ''_'' @ name
      else if subsystem \<noteq> [] then subsystem @ ''_'' @ name
      else name)"

definition NewDesc :: "string \<Rightarrow> string \<Rightarrow> string list \<Rightarrow> Desc" where
  "NewDesc fq h labels = \<lparr>fqName = fq, helpText = h, variableLabels = labels\<rparr>"

definition NewGauge :: "string \<Rightarrow> string \<Rightarrow> Gauge" where
  "NewGauge name h = \<lparr>gaugeDesc = NewDesc name h [], gaugeVal = 0\<rparr>"

definition NewCounter :: "string \<Rightarrow> string \<Rightarrow> Counter" where
  "NewCounter name h = \<lparr>counterDesc = NewDesc name h [], counterVal = 0\<rparr>"

definition Set_gauge :: "Gauge \<Rightarrow> real \<Rightarrow> Gauge" where
  "Set_gauge g v = g\<lparr>gaugeVal := v\<rparr>"

definition Inc :: "Counter \<Rightarrow> Counter" where
  "Inc k = k\<lparr>counterVal := counterVal k + 1\<rparr>"

text \<open>
  \<open>MustNewConstMetric\<close> builds the sample. The library panics there when the
  description is in error or when the label values do not fit its label names; what makes
  a name or a value invalid is the library's matter and is not part of this development.
  That the number of label values is the number of label names at every call Collect makes
  is lemma \<open>Collect_label_arity\<close> below.
\<close>

definition MustNewConstMetric :: "Desc \<Rightarrow> ValueType \<Rightarrow> real \<Rightarrow> string list \<Rightarrow> Metric" where
  "MustNewConstMetric d t v labelValues = ConstMetric d t v labelValues"

text \<open>
  The URL the collector is given (the object its field \<open>url\<close> points to; the user
  information is a name and an optional password), and the HTTP exchange. A response has
  its status code and a body with the outcomes of reading it whole (the bytes read and the
  error, if any) and of closing it. The client is the upstream as the collector sees it:
  \<open>transport\<close> answers a GET from the number of requests made before it and the URL
  requested (an error, or a response), and \<open>sent\<close> records the URLs requested. The
  collector's client and URL pointers are not \<open>nil\<close>.
\<close>

record URL =
  Scheme :: string
  Opaque :: string
  User :: "(string \<times> string option) option"
  Host :: string
  Path :: string
  RawPath :: string
  ForceQuery :: bool
  RawQuery :: string
  Fragment :: string
  RawFragment :: string

record ReadCloser =
  ReadAll :: "string \<times> error option"
  Close :: "error option"

record Response =
  StatusCode :: int
  Body :: ReadCloser

record Client =
  transport :: "nat \<Rightarrow> string \<Rightarrow> error + Response"
  sent :: "string list"

definition client_Get :: "Client \<Rightarrow> string \<Rightarrow> (error + Response) \<times> Client" where
  "client_Get cl target =
     (transport cl (length (sent cl)) target, cl\<lparr>sent := sent cl @ [target]\<rparr>)"

text \<open>
  What the file imports and this development takes as given: the namespace constant of
  package global, and the standard library's \<open>path.Join\<close>, the methods \<open>String\<close>,
  \<open>Hostname\<close> and \<open>Port\<close> of a URL, and \<open>json.Unmarshal\<close> into a health response
  (the struct it updates, and the error it returns, if any).
\<close>

record deps =
  Namespace :: string
  path_Join :: "string list \<Rightarrow> string"
  URL_String :: "URL \<Rightarrow> string"
  URL_Hostname :: "URL \<Rightarrow> string"
  URL_Port :: "URL \<Rightarrow> string"
  json_Unmarshal :: "string \<Rightarrow> clusterHealthResponse \<Rightarrow> clusterHealthResponse \<times> error option"

record clusterHealthMetric =
  Type :: ValueType
  Desc :: Desc
  Value :: "clusterHealthResponse \<Rightarrow> real"

record clusterHealthStatusMetric =
  StatusType :: ValueType
  StatusDesc :: Desc
  StatusValue :: "clusterHealthResponse \<Rightarrow> string \<Rightarrow> real"
  StatusLabels :: "(string \<Rightarrow> string \<Rightarrow> string list) option"

text \<open>The logger is the list of lines written through it.\<close>

record ClusterHealth =
  logger :: "string list"
  client :: Client
  url :: URL
  up :: Gauge
  totalScrapes :: Counter
  jsonParseFailures :: Counter
  metrics :: "clusterHealthMetric list"
  statusMetric :: clusterHealthStatusMetric

definition Output :: "string list \<Rightarrow> string \<Rightarrow> string list" where
  "Output lg s = lg @ [s]"

definition clusterHealthSubsystem :: string where
  "clusterHealthSubsystem = ''cluster_health_subsystem''"

definition colors :: "string list" where
  "colors = [''green'', ''yellow'', ''red'']"

definition defaultClusterHealthLabels :: "string list" where
  "defaultClusterHealthLabels = [''cluster'']"

subsection \<open>NewClusterHealth\<close>

definition NewClusterHealth :: "deps \<Rightarrow> string list \<Rightarrow> Client \<Rightarrow> URL \<Rightarrow> ClusterHealth" where
  "NewClusterHealth d lg cl u =
     \<lparr>logger = lg,
      client = cl,
      url = u,
      up = NewGauge
        (BuildFQName (Namespace d) clusterHealthSubsystem ''up'')
        ''Was the last scrape of the Pixiu cluster health  successful.'',
      totalScrapes = NewCounter
        (BuildFQName (Namespace d) clusterHealthSubsystem ''total_scrapes'')
        ''Current total Pixiu cluster health scrapes.'',
      jsonParseFailures = NewCounter
        (BuildFQName (Namespace d) clusterHealthSubsystem ''json_parse_failures'')
        ''Number of errors while parsing JSON.'',
      metrics =
        [
          \<lparr>Type = GaugeValue,
           Desc = NewDesc
             (BuildFQName (Namespace d) clusterHealthSubsystem ''active_primary_shards'')
             ''The number of primary shards in your cluster. This is an aggregate total across all indices.''
             defaultClusterHealthLabels,
           Value = (\<lambda>clusterHealth. float64 (ActivePrimaryShards clusterHealth))\<rparr>,
          \<lparr>Type = GaugeValue,
           Desc = NewDesc
             (BuildFQName (Namespace d) clusterHealthSubsystem ''active_shards'')
             ''Aggregate total of all shards across all indices, which includes replica shards.''
             defaultClusterHealthLabels,
           Value = (\<lambda>clusterHealth. float64 (ActiveShards clusterHealth))\<rparr>,
          \<lparr>Type = GaugeValue,
           Desc = NewDesc
             (BuildFQName (Namespace d) clusterHealthSubsystem ''delayed_unassigned_shards'')
             ''Shards delayed to reduce reallocation overhead''
             defaultClusterHealthLabels,
           Value = (\<lambda>clusterHealth. float64 (DelayedUnassignedShards clusterHealth))\<rparr>,
          \<lparr>Type = GaugeValue,
           Desc = NewDesc
             (BuildFQName (Namespace d) clusterHealthSubsystem ''initializing_shards'')
             ''Count of shards that are being freshly created.''
             defaultClusterHealthLabels,
           Value = (\<lambda>clusterHealth. float64 (InitializingShards clusterHealth))\<rparr>,
          \<lparr>Type = GaugeValue,
           Desc = NewDesc
             (BuildFQName (Namespace d) clusterHealthSubsystem ''number_of_data_nodes'')
             ''Number of data nodes in the cluster.''
             defaultClusterHealthLabels,
           Value = (\<lambda>clusterHealth. float64 (NumberOfDataNodes clusterHealth))\<rparr>,
          \<lparr>Type = GaugeValue,
           Desc = NewDesc
             (BuildFQName (Namespace d) clusterHealthSubsystem ''number_of_in_flight_fetch'')
             ''The number of ongoing shard info requests.''
             defaultClusterHealthLabels,
           Value = (\<lambda>clusterHealth. float64 (NumberOfInFlightFetch clusterHealth))\<rparr>,
          \<lparr>Type = GaugeValue,
           Desc = NewDesc
             (BuildFQName (Namespace d) clusterHealthSubsystem ''task_max_waiting_in_queue_millis'')
             ''Tasks max time waiting in queue.''
             defaultClusterHealthLabels,
           Value = (\<lambda>clusterHealth. float64 (TaskMaxWaitingInQueueMillis clusterHealth))\<rparr>,
          \<lparr>Type = GaugeValue,
           Desc = NewDesc
             (BuildFQName (Namespace d) clusterHealthSubsystem ''number_of_nodes'')
             ''Number of nodes in the cluster.''
             defaultClusterHealthLabels,
           Value = (\<lambda>clusterHealth. float64 (NumberOfNodes clusterHealth))\<rparr>,
          \<lparr>Type = GaugeValue,
           Desc = NewDesc
             (BuildFQName (Namespace d) clusterHealthSubsystem ''number_of_pending_tasks'')
             ''Cluster level changes which have not yet been executed''
             defaultClusterHealthLabels,
           Value = (\<lambda>clusterHealth. float64 (NumberOfPendingTasks clusterHealth))\<rparr>,
          \<lparr>Type = GaugeValue,
           Desc = NewDesc
             (BuildFQName (Namespace d) clusterHealthSubsystem ''relocating_shards'')
             ''The number of shards that are currently moving from one node to another node.''
             defaultClusterHealthLabels,
           Value = (\<lambda>clusterHealth. float64 (RelocatingShards clusterHealth))\<rparr>,
          \<lparr>Type = GaugeValue,
           Desc = NewDesc
             (BuildFQName (Namespace d) clusterHealthSubsystem ''unassigned_shards'')
             ''The number of shards that exist in the cluster state, but cannot be found in the cluster itself.''
             defaultClusterHealthLabels,
           Value = (\<lambda>clusterHealth. float64 (UnassignedShards clusterHealth))\<rparr>
        ],
      statusMetric =
        \<lparr>StatusType = GaugeValue,
         StatusDesc = NewDesc
           (BuildFQName (Namespace d) clusterHealthSubsystem ''status'')
           ''Whether all primary and replica shards are allocated.''
           [''cluster'', ''color''],
         StatusValue = (\<lambda>clusterHealth color. if Status clusterHealth = color then 1 else 0),
         StatusLabels = None\<rparr>\<rparr>"

subsection \<open>Describe\<close>

definition Describe :: "ClusterHealth \<Rightarrow> Desc list" where
  "Describe c =
     (let ch = foldl (\<lambda>ch metric. ch @ [Desc metric]) [] (metrics c);
          ch = ch @ [StatusDesc (statusMetric c)];
          ch = ch @ [gaugeDesc (up c)];
          ch = ch @ [counterDesc (totalScrapes c)];
          ch = ch @ [counterDesc (jsonParseFailures c)]
      in ch)"

subsection \<open>fetchAndDecodeClusterHealth\<close>

text \<open>
  The deferred function of the fetch: it closes the body and logs a failure to close. It
  runs after the results of the fetch are set, so it changes none of them.
\<close>

definition deferred_Close :: "Response \<Rightarrow> ClusterHealth \<Rightarrow> ClusterHealth" where
  "deferred_Close res c =
     (case Close (Body res) of
        Some err \<Rightarrow>
          c\<lparr>logger := Output (logger c) (''msg:'' @ ''failed to close http.Client'' @ ''err:'' @ err)\<rparr>
      | None \<Rightarrow> c)"

text \<open>The URL a fetch requests: the path joined onto a copy of the collector's URL.\<close>

definition healthURL :: "deps \<Rightarrow> ClusterHealth \<Rightarrow> URL" where
  "healthURL d c = (let u = url c in u\<lparr>Path := path_Join d [Path u, ''/_cluster/health'']\<rparr>)"

definition fetchAndDecodeClusterHealth ::
  "deps \<Rightarrow> ClusterHealth \<Rightarrow> ClusterHealth \<times> clusterHealthResponse \<times> error option" where
  "fetchAndDecodeClusterHealth d c =
     (let chr = zeroClusterHealthResponse;
          u = healthURL d c;
          (got, cl) = client_Get (client c) (URL_String d u);
          c = c\<lparr>client := cl\<rparr>
      in case got of
           Inl err \<Rightarrow>
             (c, chr,
              Some (''failed to get cluster health from '' @ Scheme u @ ''://'' @
                    URL_Hostname d u @ '':'' @ URL_Port d u @ Path u @ '': '' @ err))
         | Inr res \<Rightarrow>
             let (c, chr, err) =
                   (if StatusCode res \<noteq> 200 then
                      (c, chr, Some (''HTTP Request failed with code '' @ fmt_d (StatusCode res)))
                    else
                      case ReadAll (Body res) of
                        (bts, Some err) \<Rightarrow>
                          (c\<lparr>jsonParseFailures := Inc (jsonParseFailures c)\<rparr>, chr, Some err)
                      | (bts, None) \<Rightarrow>
                          (case json_Unmarshal d bts chr of
                             (chr, Some err) \<Rightarrow>
                               (c\<lparr>jsonParseFailures := Inc (jsonParseFailures c)\<rparr>, chr, Some err)
                           | (chr, None) \<Rightarrow> (c, chr, None)))
             in (deferred_Close res c, chr, err))"

subsection \<open>Collect\<close>

text \<open>The deferred function of Collect: the three operational metrics, sent last.\<close>

definition deferred_Collect :: "ClusterHealth \<Rightarrow> Metric list \<Rightarrow> Metric list" where
  "deferred_Collect c ch =
     (let ch = ch @ [GaugeMetric (up c)];
          ch = ch @ [CounterMetric (totalScrapes c)];
          ch = ch @ [CounterMetric (jsonParseFailures c)]
      in ch)"

definition Collect :: "deps \<Rightarrow> ClusterHealth \<Rightarrow> ClusterHealth \<times> Metric list" where
  "Collect d c =
     (let ch = [];
          c = c\<lparr>totalScrapes := Inc (totalScrapes c)\<rparr>;
          (c, clusterHealthResp, err) = fetchAndDecodeClusterHealth d c
      in case err of
           Some e \<Rightarrow>
             let c = c\<lparr>up := Set_gauge (up c) 0\<rparr>;
                 c = c\<lparr>logger := Output (logger c)
                       (''msg:'' @ ''failed to fetch and decode cluster health'' @ ''err:'' @ e)\<rparr>
             in (c, deferred_Collect c ch)
         | None \<Rightarrow>
             let c = c\<lparr>up := Set_gauge (up c) 1\<rparr>;
                 ch = foldl
                   (\<lambda>ch metric. ch @
                      [MustNewConstMetric (Desc metric) (Type metric)
                         (Value metric clusterHealthResp)
                         [ClusterName clusterHealthResp]])
                   ch (metrics c);
                 ch = foldl
                   (\<lambda>ch color. ch @
                      [MustNewConstMetric (StatusDesc (statusMetric c)) (StatusType (statusMetric c))
                         (StatusValue (statusMetric c) clusterHealthResp color)
                         [ClusterName clusterHealthResp, color]])
                   ch colors
             in (c, deferred_Collect c ch))"

text \<open>A collector after \<open>n\<close> further collection cycles.\<close>

primrec CollectN :: "deps \<Rightarrow> nat \<Rightarrow> ClusterHealth \<Rightarrow> ClusterHealth" where
  "CollectN d 0 c = c"
| "CollectN d (Suc n) c = CollectN d n (fst (Collect d c))"

subsection \<open>Vocabulary of the properties\<close>

text \<open>
  The answer the upstream will give to the collector's next GET: what the client's
  transport returns, at this point of its history, for the URL the fetch requests.
\<close>

definition upstream :: "deps \<Rightarrow> ClusterHealth \<Rightarrow> error + Response" where
  "upstream d c =
     transport (client c) (length (sent (client c))) (URL_String d (healthURL d c))"

text \<open>
  How a fetch ends, in the order in which the code tests: the GET fails, the status is not
  200, the body cannot be read, the body does not decode, or a snapshot is returned.
\<close>

datatype outcome = TransportError | UnexpectedStatus | BodyReadError | DecodeError | Success

definition outcome :: "deps \<Rightarrow> ClusterHealth \<Rightarrow> outcome" where
  "outcome d c =
     (case upstream d c of
        Inl err \<Rightarrow> TransportError
      | Inr res \<Rightarrow>
          (if StatusCode res \<noteq> 200 then UnexpectedStatus
           else
             case ReadAll (Body res) of
               (bts, Some err) \<Rightarrow> BodyReadError
             | (bts, None) \<Rightarrow>
                 (case json_Unmarshal d bts zeroClusterHealthResponse of
                    (chr, Some err) \<Rightarrow> DecodeError
                  | (chr, None) \<Rightarrow> Success)))"

text \<open>The value a metric on the channel reports.\<close>

fun sample_value :: "Metric \<Rightarrow> real" where
  "sample_value (ConstMetric dsc t v ls) = v"
| "sample_value (GaugeMetric g) = gaugeVal g"
| "sample_value (CounterMetric k) = real (counterVal k)"

fun sample_labels :: "Metric \<Rightarrow> string list" where
  "sample_labels (ConstMetric dsc t v ls) = ls"
| "sample_labels (GaugeMetric g) = []"
| "sample_labels (CounterMetric k) = []"

text \<open>
  A field sample is a constant sample under the description of an entry of the collector's
  table; a status sample is a constant sample under the description of its status metric.
\<close>

fun is_field_sample :: "ClusterHealth \<Rightarrow> Metric \<Rightarrow> bool" where
  "is_field_sample c (ConstMetric dsc t v ls) = (dsc \<in> set (map Desc (metrics c)))"
| "is_field_sample c (GaugeMetric g) = False"
| "is_field_sample c (CounterMetric k) = False"

fun is_status_sample :: "ClusterHealth \<Rightarrow> Metric \<Rightarrow> bool" where
  "is_status_sample c (ConstMetric dsc t v ls) = (dsc = StatusDesc (statusMetric c))"
| "is_status_sample c (GaugeMetric g) = False"
| "is_status_sample c (CounterMetric k) = False"

text \<open>A sample has as many label values as its description has label names.\<close>

fun label_arity_ok :: "Metric \<Rightarrow> bool" where
  "label_arity_ok (ConstMetric dsc t v ls) = (length ls = length (variableLabels dsc))"
| "label_arity_ok (GaugeMetric g) = True"
| "label_arity_ok (CounterMetric k) = True"

text \<open>
  A collector that carries the table and the status metric \<open>NewClusterHealth\<close> builds:
  the only constructor sets them and nothing assigns them afterwards.
\<close>

definition constructed :: "deps \<Rightarrow> ClusterHealth \<Rightarrow> bool" where
  "constructed d c =
     (metrics c = metrics (NewClusterHealth d (logger c) (client c) (url c)) \<and>
      statusMetric c = statusMetric (NewClusterHealth d (logger c) (client c) (url c)))"

text \<open>
  Two strings that are equal up to the case of ASCII letters and up to ASCII white space
  (space, tab, line feed, vertical tab, form feed, carriage return).
\<close>

definition to_lower :: "char \<Rightarrow> char" where
  "to_lower ch =
     (let n = (of_char ch :: nat) in if 65 \<le> n \<and> n \<le> 90 then char_of (n + 32) else ch)"

definition is_space :: "char \<Rightarrow> bool" where
  "is_space ch = ((of_char ch :: nat) \<in> set [9, 10, 11, 12, 13, 32])"

definition fold_case_space :: "string \<Rightarrow> string" where
  "fold_case_space s = map to_lower (filter (\<lambda>ch. \<not> is_space ch) s)"

text \<open>Reading a decimal numeral back, and the collector once its GET is on record.\<close>

definition undigits :: "string \<Rightarrow> nat" where
  "undigits s = foldl (\<lambda>a ch. 10 * a + (of_char ch - 48)) 0 s"

definition after_Get :: "deps \<Rightarrow> ClusterHealth \<Rightarrow> ClusterHealth" where
  "after_Get d c =
     c\<lparr>client := (client c)\<lparr>sent := sent (client c) @ [URL_String d (healthURL d c)]\<rparr>\<rparr>"

text \<open>
  An example environment for the concrete evaluations below: a library whose
  \<open>json.Unmarshal\<close> accepts exactly the body \<open>{}\<close> (leaving the struct as it is) and
  reports an error on any other, and a collector for \<open>http://es:9200\<close>.
\<close>

definition example_deps :: deps where
  "example_deps =
     \<lparr>Namespace = ''pixiu'',
      path_Join = (\<lambda>elems. concat elems),
      URL_String = (\<lambda>u. Scheme u @ ''://'' @ Host u @ Path u),
      URL_Hostname = (\<lambda>u. takeWhile (\<lambda>ch. ch \<noteq> CHR '':'') (Host u)),
      URL_Port = (\<lambda>u. drop 1 (dropWhile (\<lambda>ch. ch \<noteq> CHR '':'') (Host u))),
      json_Unmarshal = (\<lambda>bts chr. if bts = ''{}'' then (chr, None)
                                   else (chr, Some ''invalid character''))\<rparr>"

definition example_snapshot :: "string \<Rightarrow> string \<Rightarrow> int \<Rightarrow> clusterHealthResponse" where
  "example_snapshot name st shards =
     zeroClusterHealthResponse\<lparr>ClusterName := name, Status := st, ActivePrimaryShards := shards\<rparr>"

text \<open>The same library, except that its \<open>json.Unmarshal\<close> decodes the body \<open>bts\<close> to \<open>r\<close>.\<close>

definition example_deps_decoding :: "string \<Rightarrow> clusterHealthResponse \<Rightarrow> deps" where
  "example_deps_decoding bts r =
     example_deps\<lparr>json_Unmarshal :=
       (\<lambda>b chr. if b = bts then (r, None) else json_Unmarshal example_deps b chr)\<rparr>"

definition example_url :: URL where
  "example_url =
     \<lparr>Scheme = ''http'', Opaque = [], User = None, Host = ''es:9200'', Path = [],
      RawPath = [], ForceQuery = False, RawQuery = [], Fragment = [], RawFragment = []\<rparr>"

definition example_response :: "int \<Rightarrow> string \<Rightarrow> Response" where
  "example_response code bts =
     \<lparr>StatusCode = code, Body = \<lparr>ReadAll = (bts, None), Close = None\<rparr>\<rparr>"

text \<open>
  A 200 response whose connection is reset while its body is read: \<open>ReadAll\<close> returns
  the bytes \<open>bts\<close> together with the error of the connection.
\<close>

definition example_reset_response :: "string \<Rightarrow> Response" where
  "example_reset_response bts =
     \<lparr>StatusCode = 200,
      Body = \<lparr>ReadAll = (bts, Some ''read tcp: connection reset by peer''), Close = None\<rparr>\<rparr>"

definition example_client :: "(error + Response) \<Rightarrow> Client" where
  "example_client answer = \<lparr>transport = (\<lambda>n target. answer), sent = []\<rparr>"

section \<open>Properties\<close>

subsection \<open>Decimal rendering determines the number\<close>

declare digits.simps [simp del]

lemma of_char_digit: "d < 10 \<Longrightarrow> (of_char (char_of (48 + d :: nat)) :: nat) = 48 + d"
  by simp

lemma undigits_digits: "undigits (digits n) = n"
proof (induction n rule: digits.induct)
  case (1 n)
  show ?case
  proof (cases "n < 10")
    case True
    then show ?thesis
      by (subst digits.simps) (simp add: undigits_def)
  next
    case False
    then have "undigits (digits (n div 10)) = n div 10"
      using "1.IH" by simp
    moreover have "(of_char (char_of (48 + n mod 10)) :: nat) = 48 + n mod 10"
      by (rule of_char_digit) simp
    ultimately show ?thesis
      using False by (subst digits.simps) (simp add: undigits_def)
  qed
qed

lemma digits_inj: "digits m = digits n \<Longrightarrow> m = n"
  by (metis undigits_digits)

lemma minus_notin_digits: "CHR ''-'' \<notin> set (digits n)"
proof (induction n rule: digits.induct)
  case (1 n)
  have neq: "char_of (48 + d) \<noteq> CHR ''-''" if "d < 10" for d :: nat
  proof
    assume "char_of (48 + d) = CHR ''-''"
    then have "(of_char (char_of (48 + d)) :: nat) = of_char (CHR ''-'')"
      by simp
    with that show False by simp
  qed
  show ?case
  proof (cases "n < 10")
    case True
    then show ?thesis
      using neq [of n] by (subst digits.simps) auto
  next
    case False
    then show ?thesis
      using "1.IH" neq [of "n mod 10"] by (subst digits.simps) auto
  qed
qed

lemma digits_not_Nil: "digits n \<noteq> []"
  by (subst digits.simps) simp

lemma fmt_d_inj: "fmt_d i = fmt_d j \<Longrightarrow> i = j"
proof -
  assume eq: "fmt_d i = fmt_d j"
  have no_minus: "CHR ''-'' # xs \<noteq> digits n" for xs n
    using minus_notin_digits [of n] by (metis list.set_intros(1))
  show "i = j"
  proof (cases "i < 0")
    case True
    show ?thesis
    proof (cases "j < 0")
      case True
      with \<open>i < 0\<close> eq have "digits (nat (- i)) = digits (nat (- j))"
        by (simp add: fmt_d_def)
      then have "nat (- i) = nat (- j)" by (rule digits_inj)
      with True \<open>i < 0\<close> show ?thesis by simp
    next
      case False
      with \<open>i < 0\<close> eq no_minus show ?thesis by (simp add: fmt_d_def)
    qed
  next
    case False
    show ?thesis
    proof (cases "j < 0")
      case True
      with False eq no_minus [of "digits (nat (- j))" "nat i"] show ?thesis
        by (simp add: fmt_d_def)
    next
      case False
      with \<open>\<not> i < 0\<close> eq have "digits (nat i) = digits (nat j)"
        by (simp add: fmt_d_def)
      then have "nat i = nat j" by (rule digits_inj)
      with False \<open>\<not> i < 0\<close> show ?thesis by simp
    qed
  qed
qed



subsection \<open>The loops as maps\<close>

lemma foldl_send: "foldl (\<lambda>ch x. ch @ [f x]) acc xs = acc @ map f xs"
  by (induction xs arbitrary: acc) simp_all

subsection \<open>The fetch, outcome by outcome\<close>

lemma deferred_Close_fields [simp]:
  "client (deferred_Close res c) = client c"
  "url (deferred_Close res c) = url c"
  "up (deferred_Close res c) = up c"
  "totalScrapes (deferred_Close res c) = totalScrapes c"
  "jsonParseFailures (deferred_Close res c) = jsonParseFailures c"
  "metrics (deferred_Close res c) = metrics c"
  "statusMetric (deferred_Close res c) = statusMetric c"
  by (simp_all add: deferred_Close_def split: option.splits)

lemma after_Get_fields [simp]:
  "logger (after_Get d c) = logger c"
  "url (after_Get d c) = url c"
  "up (after_Get d c) = up c"
  "totalScrapes (after_Get d c) = totalScrapes c"
  "jsonParseFailures (after_Get d c) = jsonParseFailures c"
  "metrics (after_Get d c) = metrics c"
  "statusMetric (after_Get d c) = statusMetric c"
  "sent (client (after_Get d c)) = sent (client c) @ [URL_String d (healthURL d c)]"
  "transport (client (after_Get d c)) = transport (client c)"
  by (simp_all add: after_Get_def)

lemma fetch_Get_error:
  assumes "upstream d c = Inl e"
  shows "fetchAndDecodeClusterHealth d c =
    (after_Get d c, zeroClusterHealthResponse,
     Some (''failed to get cluster health from '' @ Scheme (healthURL d c) @ ''://'' @
           URL_Hostname d (healthURL d c) @ '':'' @ URL_Port d (healthURL d c) @
           Path (healthURL d c) @ '': '' @ e))"
  using assms
  by (simp add: fetchAndDecodeClusterHealth_def client_Get_def upstream_def after_Get_def Let_def)

lemma fetch_status_error:
  assumes "upstream d c = Inr res" and "StatusCode res \<noteq> 200"
  shows "fetchAndDecodeClusterHealth d c =
    (deferred_Close res (after_Get d c), zeroClusterHealthResponse,
     Some (''HTTP Request failed with code '' @ fmt_d (StatusCode res)))"
  using assms
  by (simp add: fetchAndDecodeClusterHealth_def client_Get_def upstream_def after_Get_def Let_def)

lemma fetch_read_error:
  assumes "upstream d c = Inr res" and "StatusCode res = 200"
    and "ReadAll (Body res) = (bts, Some e)"
  shows "fetchAndDecodeClusterHealth d c =
    (deferred_Close res ((after_Get d c)\<lparr>jsonParseFailures := Inc (jsonParseFailures c)\<rparr>),
     zeroClusterHealthResponse, Some e)"
  using assms
  by (simp add: fetchAndDecodeClusterHealth_def client_Get_def upstream_def after_Get_def Let_def)

lemma fetch_decode_error:
  assumes "upstream d c = Inr res" and "StatusCode res = 200"
    and "ReadAll (Body res) = (bts, None)"
    and "json_Unmarshal d bts zeroClusterHealthResponse = (chr, Some e)"
  shows "fetchAndDecodeClusterHealth d c =
    (deferred_Close res ((after_Get d c)\<lparr>jsonParseFailures := Inc (jsonParseFailures c)\<rparr>),
     chr, Some e)"
  using assms
  by (simp add: fetchAndDecodeClusterHealth_def client_Get_def upstream_def after_Get_def Let_def)

lemma fetch_success:
  assumes "upstream d c = Inr res" and "StatusCode res = 200"
    and "ReadAll (Body res) = (bts, None)"
    and "json_Unmarshal d bts zeroClusterHealthResponse = (chr, None)"
  shows "fetchAndDecodeClusterHealth d c = (deferred_Close res (after_Get d c), chr, None)"
  using assms
  by (simp add: fetchAndDecodeClusterHealth_def client_Get_def upstream_def after_Get_def Let_def)

text \<open>What no fetch changes, whatever its outcome.\<close>

lemma fetch_frame:
  assumes "fetchAndDecodeClusterHealth d c = (c', chr, err)"
  shows "url c' = url c" and "up c' = up c" and "totalScrapes c' = totalScrapes c"
    and "metrics c' = metrics c" and "statusMetric c' = statusMetric c"
    and "transport (client c') = transport (client c)"
    and "sent (client c') = sent (client c) @ [URL_String d (healthURL d c)]"
    and "counterDesc (jsonParseFailures c') = counterDesc (jsonParseFailures c)"
proof -
  have "url c' = url c \<and> up c' = up c \<and> totalScrapes c' = totalScrapes c \<and>
    metrics c' = metrics c \<and> statusMetric c' = statusMetric c \<and>
    transport (client c') = transport (client c) \<and>
    sent (client c') = sent (client c) @ [URL_String d (healthURL d c)] \<and>
    counterDesc (jsonParseFailures c') = counterDesc (jsonParseFailures c)"
  proof (cases "upstream d c")
    case (Inl e)
    from fetch_Get_error [OF Inl] assms show ?thesis by (auto simp: Inc_def)
  next
    case (Inr res)
    show ?thesis
    proof (cases "StatusCode res = 200")
      case False
      from fetch_status_error [OF Inr False] assms show ?thesis by (auto simp: Inc_def)
    next
      case True
      obtain bts rerr where rd: "ReadAll (Body res) = (bts, rerr)"
        by (cases "ReadAll (Body res)")
      show ?thesis
      proof (cases rerr)
        case (Some e)
        from fetch_read_error [OF Inr True] rd Some assms show ?thesis by (auto simp: Inc_def)
      next
        case None
        obtain r uerr where um: "json_Unmarshal d bts zeroClusterHealthResponse = (r, uerr)"
          by (cases "json_Unmarshal d bts zeroClusterHealthResponse")
        show ?thesis
        proof (cases uerr)
          case (Some e)
          from fetch_decode_error [OF Inr True] rd None um Some assms show ?thesis by (auto simp: Inc_def)
        next
          case None': None
          from fetch_success [OF Inr True] rd None um None' assms show ?thesis by (auto simp: Inc_def)
        qed
      qed
    qed
  qed
  then show "url c' = url c" and "up c' = up c" and "totalScrapes c' = totalScrapes c"
    and "metrics c' = metrics c" and "statusMetric c' = statusMetric c"
    and "transport (client c') = transport (client c)"
    and "sent (client c') = sent (client c) @ [URL_String d (healthURL d c)]"
    and "counterDesc (jsonParseFailures c') = counterDesc (jsonParseFailures c)"
    by simp_all
qed

lemma upstream_totalScrapes [simp]: "upstream d (c\<lparr>totalScrapes := k\<rparr>) = upstream d c"
  by (simp add: upstream_def healthURL_def)

lemma healthURL_totalScrapes [simp]: "healthURL d (c\<lparr>totalScrapes := k\<rparr>) = healthURL d c"
  by (simp add: healthURL_def)

subsection \<open>Collect, by the outcome of its fetch\<close>

lemma Collect_failure:
  assumes "fetchAndDecodeClusterHealth d (c\<lparr>totalScrapes := Inc (totalScrapes c)\<rparr>) = (c1, chr, Some e)"
  shows "Collect d c =
    (c1\<lparr>up := Set_gauge (up c) 0,
        logger := Output (logger c1)
          (''msg:failed to fetch and decode cluster healtherr:'' @ e)\<rparr>,
     [GaugeMetric (Set_gauge (up c) 0), CounterMetric (Inc (totalScrapes c)),
      CounterMetric (jsonParseFailures c1)])"
  using assms fetch_frame [OF assms]
  by (simp add: Collect_def deferred_Collect_def Let_def)

lemma Collect_success:
  assumes "fetchAndDecodeClusterHealth d (c\<lparr>totalScrapes := Inc (totalScrapes c)\<rparr>) = (c1, chr, None)"
  shows "Collect d c =
    (c1\<lparr>up := Set_gauge (up c) 1\<rparr>,
     map (\<lambda>metric. ConstMetric (Desc metric) (Type metric) (Value metric chr) [ClusterName chr])
       (metrics c) @
     map (\<lambda>color. ConstMetric (StatusDesc (statusMetric c)) (StatusType (statusMetric c))
            (StatusValue (statusMetric c) chr color) [ClusterName chr, color])
       colors @
     [GaugeMetric (Set_gauge (up c) 1), CounterMetric (Inc (totalScrapes c)),
      CounterMetric (jsonParseFailures c1)])"
  using assms fetch_frame [OF assms]
  by (simp add: Collect_def deferred_Collect_def Let_def foldl_send MustNewConstMetric_def)


subsection \<open>Outcomes and the fetch\<close>

lemma outcome_totalScrapes [simp]: "outcome d (c\<lparr>totalScrapes := k\<rparr>) = outcome d c"
  by (simp add: outcome_def)

lemma after_Get_totalScrapes:
  "after_Get d (c\<lparr>totalScrapes := k\<rparr>) = (after_Get d c)\<lparr>totalScrapes := k\<rparr>"
  by (simp add: after_Get_def)

text \<open>The counter of scrapes has no part in a fetch: it is carried through.\<close>

lemma fetch_totalScrapes:
  "fetchAndDecodeClusterHealth d (c\<lparr>totalScrapes := k\<rparr>) =
     (case fetchAndDecodeClusterHealth d c of (c1, r) \<Rightarrow> (c1\<lparr>totalScrapes := k\<rparr>, r))"
proof (cases "upstream d c")
  case (Inl e)
  then show ?thesis
    using fetch_Get_error [of d c e] fetch_Get_error [of d "c\<lparr>totalScrapes := k\<rparr>" e]
    by (simp add: after_Get_totalScrapes)
next
  case (Inr res)
  show ?thesis
  proof (cases "StatusCode res = 200")
    case False
    with Inr show ?thesis
      using fetch_status_error [of d c res] fetch_status_error [of d "c\<lparr>totalScrapes := k\<rparr>" res]
      by (simp add: after_Get_totalScrapes deferred_Close_def split: option.splits)
  next
    case True
    obtain bts rerr where rd: "ReadAll (Body res) = (bts, rerr)"
      by (cases "ReadAll (Body res)")
    show ?thesis
    proof (cases rerr)
      case (Some e)
      with Inr True rd show ?thesis
        using fetch_read_error [of d c res bts e]
          fetch_read_error [of d "c\<lparr>totalScrapes := k\<rparr>" res bts e]
        by (simp add: after_Get_totalScrapes deferred_Close_def split: option.splits)
    next
      case None
      obtain r uerr where um: "json_Unmarshal d bts zeroClusterHealthResponse = (r, uerr)"
        by (cases "json_Unmarshal d bts zeroClusterHealthResponse")
      show ?thesis
      proof (cases uerr)
        case (Some e)
        with Inr True rd None um show ?thesis
          using fetch_decode_error [of d c res bts r e]
            fetch_decode_error [of d "c\<lparr>totalScrapes := k\<rparr>" res bts r e]
          by (simp add: after_Get_totalScrapes deferred_Close_def split: option.splits)
      next
        case None': None
        with Inr True rd None um show ?thesis
          using fetch_success [of d c res bts r]
            fetch_success [of d "c\<lparr>totalScrapes := k\<rparr>" res bts r]
          by (simp add: after_Get_totalScrapes deferred_Close_def split: option.splits)
      qed
    qed
  qed
qed

lemma fetch_result_totalScrapes:
  "snd (fetchAndDecodeClusterHealth d (c\<lparr>totalScrapes := k\<rparr>)) = snd (fetchAndDecodeClusterHealth d c)"
  by (simp add: fetch_totalScrapes split: prod.splits)

text \<open>The fetch returns no error exactly in the outcome \<open>Success\<close>.\<close>

lemma outcome_Success_iff:
  "outcome d c = Success \<longleftrightarrow> snd (snd (fetchAndDecodeClusterHealth d c)) = None"
proof (cases "upstream d c")
  case (Inl e)
  then show ?thesis
    using fetch_Get_error [of d c e] by (simp add: outcome_def)
next
  case (Inr res)
  show ?thesis
  proof (cases "StatusCode res = 200")
    case False
    with Inr show ?thesis
      using fetch_status_error [of d c res] by (simp add: outcome_def)
  next
    case True
    obtain bts rerr where rd: "ReadAll (Body res) = (bts, rerr)"
      by (cases "ReadAll (Body res)")
    show ?thesis
    proof (cases rerr)
      case (Some e)
      with Inr True rd show ?thesis
        using fetch_read_error [of d c res bts e] by (simp add: outcome_def)
    next
      case None
      obtain r uerr where um: "json_Unmarshal d bts zeroClusterHealthResponse = (r, uerr)"
        by (cases "json_Unmarshal d bts zeroClusterHealthResponse")
      show ?thesis
      proof (cases uerr)
        case (Some e)
        with Inr True rd None um show ?thesis
          using fetch_decode_error [of d c res bts r e] by (simp add: outcome_def)
      next
        case None': None
        with Inr True rd None um show ?thesis
          using fetch_success [of d c res bts r] by (simp add: outcome_def)
      qed
    qed
  qed
qed

text \<open>The parse-failure counter after a fetch, by outcome.\<close>

lemma fetch_jsonParseFailures:
  "counterVal (jsonParseFailures (fst (fetchAndDecodeClusterHealth d c))) =
     counterVal (jsonParseFailures c) +
       (if outcome d c = BodyReadError \<or> outcome d c = DecodeError then 1 else 0)"
proof (cases "upstream d c")
  case (Inl e)
  then show ?thesis
    using fetch_Get_error [of d c e] by (simp add: outcome_def)
next
  case (Inr res)
  show ?thesis
  proof (cases "StatusCode res = 200")
    case False
    with Inr show ?thesis
      using fetch_status_error [of d c res] by (simp add: outcome_def)
  next
    case True
    obtain bts rerr where rd: "ReadAll (Body res) = (bts, rerr)"
      by (cases "ReadAll (Body res)")
    show ?thesis
    proof (cases rerr)
      case (Some e)
      with Inr True rd show ?thesis
        using fetch_read_error [of d c res bts e] by (simp add: outcome_def Inc_def)
    next
      case None
      obtain r uerr where um: "json_Unmarshal d bts zeroClusterHealthResponse = (r, uerr)"
        by (cases "json_Unmarshal d bts zeroClusterHealthResponse")
      show ?thesis
      proof (cases uerr)
        case (Some e)
        with Inr True rd None um show ?thesis
          using fetch_decode_error [of d c res bts r e] by (simp add: outcome_def Inc_def)
      next
        case None': None
        with Inr True rd None um show ?thesis
          using fetch_success [of d c res bts r] by (simp add: outcome_def)
      qed
    qed
  qed
qed


subsection \<open>Collectors built by NewClusterHealth\<close>

lemma constructed_New: "constructed d (NewClusterHealth d lg cl u)"
  by (simp add: constructed_def NewClusterHealth_def)

lemma Collect_frame:
  "metrics (fst (Collect d c)) = metrics c"
  "statusMetric (fst (Collect d c)) = statusMetric c"
  "url (fst (Collect d c)) = url c"
  "transport (client (fst (Collect d c))) = transport (client c)"
  "sent (client (fst (Collect d c))) = sent (client c) @ [URL_String d (healthURL d c)]"
  "gaugeDesc (up (fst (Collect d c))) = gaugeDesc (up c)"
  "counterDesc (totalScrapes (fst (Collect d c))) = counterDesc (totalScrapes c)"
  "counterDesc (jsonParseFailures (fst (Collect d c))) = counterDesc (jsonParseFailures c)"
  "counterVal (totalScrapes (fst (Collect d c))) = counterVal (totalScrapes c) + 1"
proof -
  obtain c1 chr err where f:
    "fetchAndDecodeClusterHealth d (c\<lparr>totalScrapes := Inc (totalScrapes c)\<rparr>) = (c1, chr, err)"
    by (cases "fetchAndDecodeClusterHealth d (c\<lparr>totalScrapes := Inc (totalScrapes c)\<rparr>)") auto
  note fr = fetch_frame [OF f]
  have "metrics (fst (Collect d c)) = metrics c \<and>
    statusMetric (fst (Collect d c)) = statusMetric c \<and>
    url (fst (Collect d c)) = url c \<and>
    transport (client (fst (Collect d c))) = transport (client c) \<and>
    sent (client (fst (Collect d c))) = sent (client c) @ [URL_String d (healthURL d c)] \<and>
    gaugeDesc (up (fst (Collect d c))) = gaugeDesc (up c) \<and>
    counterDesc (totalScrapes (fst (Collect d c))) = counterDesc (totalScrapes c) \<and>
    counterDesc (jsonParseFailures (fst (Collect d c))) = counterDesc (jsonParseFailures c) \<and>
    counterVal (totalScrapes (fst (Collect d c))) = counterVal (totalScrapes c) + 1"
  proof (cases err)
    case None
    with f fr show ?thesis
      using Collect_success [of d c c1 chr] by (simp add: Set_gauge_def Inc_def)
  next
    case (Some e)
    with f fr show ?thesis
      using Collect_failure [of d c c1 chr e] by (simp add: Set_gauge_def Inc_def)
  qed
  then show
  "metrics (fst (Collect d c)) = metrics c"
  "statusMetric (fst (Collect d c)) = statusMetric c"
  "url (fst (Collect d c)) = url c"
  "transport (client (fst (Collect d c))) = transport (client c)"
  "sent (client (fst (Collect d c))) = sent (client c) @ [URL_String d (healthURL d c)]"
  "gaugeDesc (up (fst (Collect d c))) = gaugeDesc (up c)"
  "counterDesc (totalScrapes (fst (Collect d c))) = counterDesc (totalScrapes c)"
  "counterDesc (jsonParseFailures (fst (Collect d c))) = counterDesc (jsonParseFailures c)"
  "counterVal (totalScrapes (fst (Collect d c))) = counterVal (totalScrapes c) + 1"
    by simp_all
qed


lemma healthURL_cong: "url c' = url c \<Longrightarrow> healthURL d c' = healthURL d c"
  by (simp add: healthURL_def)

lemma constructed_Collect: "constructed d c \<Longrightarrow> constructed d (fst (Collect d c))"
  by (simp add: constructed_def Collect_frame NewClusterHealth_def)

lemma CollectN_frame:
  "metrics (CollectN d n c) = metrics c \<and>
   statusMetric (CollectN d n c) = statusMetric c \<and>
   url (CollectN d n c) = url c \<and>
   gaugeDesc (up (CollectN d n c)) = gaugeDesc (up c) \<and>
   counterDesc (totalScrapes (CollectN d n c)) = counterDesc (totalScrapes c) \<and>
   counterDesc (jsonParseFailures (CollectN d n c)) = counterDesc (jsonParseFailures c) \<and>
   counterVal (totalScrapes (CollectN d n c)) = counterVal (totalScrapes c) + n \<and>
   sent (client (CollectN d n c)) =
     sent (client c) @ replicate n (URL_String d (healthURL d c))"
proof (induction n arbitrary: c)
  case 0
  show ?case by simp
next
  case (Suc n)
  have "healthURL d (fst (Collect d c)) = healthURL d c"
    by (rule healthURL_cong) (simp add: Collect_frame)
  with Suc [of "fst (Collect d c)"] show ?case
    by (simp add: Collect_frame replicate_append_same)
qed

lemma constructed_CollectN: "constructed d c \<Longrightarrow> constructed d (CollectN d n c)"
  by (induction n arbitrary: c) (simp_all add: constructed_Collect)

lemma Describe_eq:
  "Describe c = map Desc (metrics c) @
     [StatusDesc (statusMetric c), gaugeDesc (up c), counterDesc (totalScrapes c),
      counterDesc (jsonParseFailures c)]"
  by (simp add: Describe_def foldl_send)



subsection \<open>The samples of a successful cycle\<close>

lemma constructed_labels:
  assumes "constructed d c"
  shows "\<forall>m \<in> set (metrics c). variableLabels (Desc m) = [''cluster'']"
    and "variableLabels (StatusDesc (statusMetric c)) = [''cluster'', ''color'']"
  using assms
  by (simp_all add: constructed_def NewClusterHealth_def NewDesc_def defaultClusterHealthLabels_def)

lemma constructed_descs:
  assumes "constructed d c"
  shows "StatusDesc (statusMetric c) \<notin> set (map Desc (metrics c))"
proof
  assume "StatusDesc (statusMetric c) \<in> set (map Desc (metrics c))"
  then obtain m where "m \<in> set (metrics c)" and "Desc m = StatusDesc (statusMetric c)"
    by auto
  with constructed_labels [OF assms] show False by auto
qed

lemma constructed_statusMetric:
  assumes "constructed d c"
  shows "StatusType (statusMetric c) = GaugeValue"
    and "StatusValue (statusMetric c) = (\<lambda>clusterHealth color. if Status clusterHealth = color then 1 else 0)"
  using assms by (simp_all add: constructed_def NewClusterHealth_def)

lemma Collect_success_samples:
  assumes ok: "snd (fetchAndDecodeClusterHealth d c) = (chr, None)"
    and sep: "StatusDesc (statusMetric c) \<notin> set (map Desc (metrics c))"
  shows "filter (is_field_sample c) (snd (Collect d c)) =
      map (\<lambda>metric. ConstMetric (Desc metric) (Type metric) (Value metric chr) [ClusterName chr])
        (metrics c)"
    and "filter (is_status_sample c) (snd (Collect d c)) =
      map (\<lambda>color. ConstMetric (StatusDesc (statusMetric c)) (StatusType (statusMetric c))
             (StatusValue (statusMetric c) chr color) [ClusterName chr, color])
        colors"
    and "gaugeVal (up (fst (Collect d c))) = 1"
proof -
  let ?c0 = "c\<lparr>totalScrapes := Inc (totalScrapes c)\<rparr>"
  let ?F = "\<lambda>metric. ConstMetric (Desc metric) (Type metric) (Value metric chr) [ClusterName chr]"
  let ?S = "\<lambda>color. ConstMetric (StatusDesc (statusMetric c)) (StatusType (statusMetric c))
             (StatusValue (statusMetric c) chr color) [ClusterName chr, color]"
  from ok have "snd (fetchAndDecodeClusterHealth d ?c0) = (chr, None)"
    by (simp add: fetch_result_totalScrapes)
  then obtain c1 where f: "fetchAndDecodeClusterHealth d ?c0 = (c1, chr, None)"
    by (cases "fetchAndDecodeClusterHealth d ?c0") auto
  note out = Collect_success [OF f]
  have f1: "filter (is_field_sample c) (map ?F (metrics c)) = map ?F (metrics c)"
    by (simp add: filter_map o_def)
  have f2: "filter (is_field_sample c) (map ?S colors) = []"
    using sep by (simp add: filter_map o_def)
  have s1: "filter (is_status_sample c) (map ?F (metrics c)) = []"
    using sep by (force simp: filter_empty_conv)
  have s2: "filter (is_status_sample c) (map ?S colors) = map ?S colors"
    by (simp add: filter_map o_def)
  show "filter (is_field_sample c) (snd (Collect d c)) = map ?F (metrics c)"
    unfolding out by (simp add: f1 f2 del: map_map)
  show "filter (is_status_sample c) (snd (Collect d c)) = map ?S colors"
    unfolding out by (simp add: s1 s2 del: map_map)
  show "gaugeVal (up (fst (Collect d c))) = 1"
    unfolding out by (simp add: Set_gauge_def)
qed

text \<open>Every sample Collect builds has the label values its description asks for.\<close>

lemma Collect_label_arity:
  assumes "constructed d c"
  shows "list_all label_arity_ok (snd (Collect d c))"
proof -
  let ?c0 = "c\<lparr>totalScrapes := Inc (totalScrapes c)\<rparr>"
  obtain c1 chr err where f: "fetchAndDecodeClusterHealth d ?c0 = (c1, chr, err)"
    by (cases "fetchAndDecodeClusterHealth d ?c0") auto
  show ?thesis
  proof (cases err)
    case (Some e)
    from Collect_failure [OF f [unfolded Some]] show ?thesis by simp
  next
    case None
    from Collect_success [OF f [unfolded None]] constructed_labels [OF assms] show ?thesis
      by (simp add: list_all_iff colors_def)
  qed
qed

subsection \<open>Strings equal up to case and white space\<close>

lemma fold_case_space_colors:
  "fold_case_space ''green'' = ''green''"
  "fold_case_space ''yellow'' = ''yellow''"
  "fold_case_space ''red'' = ''red''"
  by (simp_all add: fold_case_space_def to_lower_def is_space_def)

lemma fold_case_space_not_color:
  assumes "col \<in> set colors" and "s \<noteq> col" and "fold_case_space s = fold_case_space col"
  shows "s \<notin> set colors"
proof
  assume "s \<in> set colors"
  with assms(1) have "fold_case_space s = s" and "fold_case_space col = col"
    by (auto simp: colors_def fold_case_space_colors)
  with assms(2,3) show False by simp
qed

subsection \<open>The percentage of active shards\<close>

text \<open>
  A library that differs from \<open>d\<close> only in the percentage of active shards that its
  decoder stores.
\<close>

lemma fetch_percent:
  fixes d x
  defines "d' \<equiv> d\<lparr>json_Unmarshal := (\<lambda>bts z. case json_Unmarshal d bts z of
             (r, e) \<Rightarrow> (r\<lparr>ActiveShardsPercentAsNumber := x\<rparr>, e))\<rparr>"
  shows "\<exists>y. fetchAndDecodeClusterHealth d' c =
    (case fetchAndDecodeClusterHealth d c of
       (c1, chr, err) \<Rightarrow> (c1, chr\<lparr>ActiveShardsPercentAsNumber := y\<rparr>, err))"
proof -
  have u: "upstream d' c = upstream d c" and h: "healthURL d' c = healthURL d c"
    and ag: "after_Get d' c = after_Get d c"
    by (simp_all add: upstream_def healthURL_def d'_def after_Get_def)
  have hp: "URL_Hostname d' = URL_Hostname d" "URL_Port d' = URL_Port d"
    by (simp_all add: d'_def)
  have ex: "\<exists>y. zeroClusterHealthResponse =
      zeroClusterHealthResponse\<lparr>ActiveShardsPercentAsNumber := y\<rparr>"
    by (rule exI [of _ "ActiveShardsPercentAsNumber zeroClusterHealthResponse"]) simp
  show ?thesis
  proof (cases "upstream d c")
    case (Inl e)
    with u have "upstream d' c = Inl e" by simp
    from fetch_Get_error [OF this] fetch_Get_error [OF Inl] show ?thesis
        by (simp add: h ag ex hp)
  next
    case (Inr res)
    with u have Inr': "upstream d' c = Inr res" by simp
    show ?thesis
    proof (cases "StatusCode res = 200")
      case False
      from fetch_status_error [OF Inr' False] fetch_status_error [OF Inr False] show ?thesis
        by (simp add: h ag ex hp)
    next
      case True
      obtain bts rerr where rd: "ReadAll (Body res) = (bts, rerr)"
        by (cases "ReadAll (Body res)")
      show ?thesis
      proof (cases rerr)
        case (Some e)
        from fetch_read_error [OF Inr' True rd [unfolded Some]]
          fetch_read_error [OF Inr True rd [unfolded Some]] show ?thesis
        by (simp add: h ag ex hp)
      next
        case None
        obtain r uerr where um: "json_Unmarshal d bts zeroClusterHealthResponse = (r, uerr)"
          by (cases "json_Unmarshal d bts zeroClusterHealthResponse")
        then have um': "json_Unmarshal d' bts zeroClusterHealthResponse =
            (r\<lparr>ActiveShardsPercentAsNumber := x\<rparr>, uerr)"
          by (simp add: d'_def)
        show ?thesis
        proof (cases uerr)
          case (Some e)
          from fetch_decode_error [OF Inr' True rd [unfolded None] um' [unfolded Some]]
            fetch_decode_error [OF Inr True rd [unfolded None] um [unfolded Some]]
          show ?thesis
            by (auto simp: h ag)
        next
          case None': None
          from fetch_success [OF Inr' True rd [unfolded None] um' [unfolded None']]
            fetch_success [OF Inr True rd [unfolded None] um [unfolded None']]
          show ?thesis
            by (auto simp: h ag)
        qed
      qed
    qed
  qed
qed

section \<open>The claims\<close>

subsection \<open>C5: one scrape counted per Collect\<close>

text \<open>
  Claim C5. Every Collect invocation increments the counter \<open>totalScrapes\<close> exactly once,
  whether its fetch succeeds or fails: after one call the counter is one more than before,
  and after \<open>n\<close> calls it is \<open>n\<close> more. Nothing is assumed of the fetch.
\<close>

theorem Collect_totalScrapes_once:
  "counterVal (totalScrapes (fst (Collect d c))) = counterVal (totalScrapes c) + 1 \<and>
   counterVal (totalScrapes (CollectN d n c)) = counterVal (totalScrapes c) + n"
  using CollectN_frame [of d n c] by (simp add: Collect_frame)

text \<open>On a fresh collector: one after a 503, one after a good answer, three after three
  refused connections.\<close>

theorem Collect_totalScrapes_once_witness:
  "counterVal (totalScrapes (fst (Collect example_deps
      (NewClusterHealth example_deps [] (example_client (Inr (example_response 503 []))) example_url)))) = 1 \<and>
   counterVal (totalScrapes (fst (Collect example_deps
      (NewClusterHealth example_deps [] (example_client (Inr (example_response 200 ''{}''))) example_url)))) = 1 \<and>
   counterVal (totalScrapes (CollectN example_deps 3
      (NewClusterHealth example_deps [] (example_client (Inl ''connection refused'')) example_url))) = 3"
  using Collect_totalScrapes_once [of example_deps
      "NewClusterHealth example_deps [] (example_client (Inr (example_response 503 []))) example_url" 0]
    Collect_totalScrapes_once [of example_deps
      "NewClusterHealth example_deps [] (example_client (Inr (example_response 200 ''{}''))) example_url" 0]
    Collect_totalScrapes_once [of example_deps
      "NewClusterHealth example_deps [] (example_client (Inl ''connection refused'')) example_url" 3]
  by (simp add: NewClusterHealth_def NewCounter_def)

subsection \<open>C6: Describe\<close>

text \<open>
  Claim C6. Describe sends the description of every entry of the field table, in order,
  then that of the status metric, then those of \<open>up\<close>, \<open>totalScrapes\<close> and
  \<open>jsonParseFailures\<close>: as many as the table has entries, plus one, plus three. It reads
  nothing a fetch sets, so it sends the same after any Collect call and after any number
  of them; for a collector built by \<open>NewClusterHealth\<close> that is 11 + 1 + 3 descriptions.
\<close>

theorem Describe_unconditional:
  "Describe c = map Desc (metrics c) @
     [StatusDesc (statusMetric c), gaugeDesc (up c), counterDesc (totalScrapes c),
      counterDesc (jsonParseFailures c)] \<and>
   length (Describe c) = length (metrics c) + 1 + 3 \<and>
   Describe (fst (Collect d c)) = Describe c \<and>
   Describe (CollectN d n c) = Describe c \<and>
   length (Describe (CollectN d n (NewClusterHealth d lg cl u))) = 11 + 1 + 3"
  using CollectN_frame [of d n c] CollectN_frame [of d n "NewClusterHealth d lg cl u"]
  by (simp add: Describe_eq Collect_frame) (simp add: NewClusterHealth_def)

theorem Describe_unconditional_witness:
  "length (Describe
     (NewClusterHealth example_deps [] (example_client (Inl ''connection refused'')) example_url))
     = 15 \<and>
   Describe (fst (Collect example_deps
     (NewClusterHealth example_deps [] (example_client (Inl ''connection refused'')) example_url)))
     = Describe
     (NewClusterHealth example_deps [] (example_client (Inl ''connection refused'')) example_url) \<and>
   length (Describe (CollectN example_deps 2
     (NewClusterHealth example_deps [] (example_client (Inl ''connection refused'')) example_url)))
     = 15"
  using Describe_unconditional [of
      "NewClusterHealth example_deps [] (example_client (Inl ''connection refused'')) example_url"
      example_deps 2 "[]" "example_client (Inl ''connection refused'')" example_url]
    Describe_unconditional [of
      "NewClusterHealth example_deps [] (example_client (Inl ''connection refused'')) example_url"
      example_deps 0 "[]" "example_client (Inl ''connection refused'')" example_url]
  by simp

subsection \<open>C10: the stored URL\<close>

text \<open>
  Claim C10. A fetch leaves the collector's URL as it was: the path \<open>/_cluster/health\<close>
  is joined onto a copy. The one request a fetch makes is for the string of that copy, so
  after \<open>n\<close> Collect calls the URL is still unchanged and the \<open>n\<close> requests made were
  all for the same target. (The field \<open>url\<close> is the URL object the collector points to.)
\<close>

theorem fetch_leaves_url:
  "url (fst (fetchAndDecodeClusterHealth d c)) = url c \<and>
   sent (client (fst (fetchAndDecodeClusterHealth d c))) =
     sent (client c) @
       [URL_String d ((url c)\<lparr>Path := path_Join d [Path (url c), ''/_cluster/health'']\<rparr>)] \<and>
   url (CollectN d n c) = url c \<and>
   sent (client (CollectN d n c)) =
     sent (client c) @
       replicate n
         (URL_String d ((url c)\<lparr>Path := path_Join d [Path (url c), ''/_cluster/health'']\<rparr>))"
proof -
  obtain c' chr err where f: "fetchAndDecodeClusterHealth d c = (c', chr, err)"
    by (cases "fetchAndDecodeClusterHealth d c") auto
  from fetch_frame(1,7) [OF f] f CollectN_frame [of d n c] show ?thesis
    by (simp add: healthURL_def Let_def)
qed

theorem fetch_leaves_url_witness:
  "url (fst (fetchAndDecodeClusterHealth example_deps
      (NewClusterHealth example_deps [] (example_client (Inr (example_response 200 ''{}''))) example_url)))
     = example_url \<and>
   url (CollectN example_deps 2
      (NewClusterHealth example_deps [] (example_client (Inr (example_response 200 ''{}''))) example_url))
     = example_url \<and>
   sent (client (CollectN example_deps 2
      (NewClusterHealth example_deps [] (example_client (Inr (example_response 200 ''{}''))) example_url)))
     = [''http://es:9200/_cluster/health'', ''http://es:9200/_cluster/health'']"
  using fetch_leaves_url [of example_deps
      "NewClusterHealth example_deps [] (example_client (Inr (example_response 200 ''{}''))) example_url" 2]
  by (simp add: NewClusterHealth_def example_client_def example_deps_def example_url_def
      numeral_2_eq_2)

subsection \<open>C2: a failed fetch\<close>

text \<open>
  Claim C2. When the fetch of a Collect call fails (the GET fails, the status is not 200,
  or the body cannot be read or decoded), Collect sends exactly the three operational
  metrics \<open>up\<close>, \<open>totalScrapes\<close> and \<open>jsonParseFailures\<close>, hence no field sample and
  no status sample; \<open>up\<close> is 0 and \<open>totalScrapes\<close> is one more than before.
\<close>

theorem Collect_failed_fetch:
  assumes "outcome d c = TransportError \<or> outcome d c = UnexpectedStatus \<or>
    outcome d c = BodyReadError \<or> outcome d c = DecodeError"
  shows "snd (Collect d c) =
      [GaugeMetric (up (fst (Collect d c))),
       CounterMetric (totalScrapes (fst (Collect d c))),
       CounterMetric (jsonParseFailures (fst (Collect d c)))] \<and>
    filter (is_field_sample c) (snd (Collect d c)) = [] \<and>
    filter (is_status_sample c) (snd (Collect d c)) = [] \<and>
    gaugeVal (up (fst (Collect d c))) = 0 \<and>
    counterVal (totalScrapes (fst (Collect d c))) = counterVal (totalScrapes c) + 1"
proof -
  let ?c0 = "c\<lparr>totalScrapes := Inc (totalScrapes c)\<rparr>"
  obtain c1 chr err where f: "fetchAndDecodeClusterHealth d ?c0 = (c1, chr, err)"
    by (cases "fetchAndDecodeClusterHealth d ?c0") auto
  from assms have "outcome d ?c0 \<noteq> Success" by auto
  then have "err \<noteq> None"
    using f by (simp add: outcome_Success_iff del: outcome_totalScrapes)
  then obtain e where e: "err = Some e" by auto
  from Collect_failure [OF f [unfolded e]] fetch_frame [OF f] show ?thesis
    by (simp add: Set_gauge_def Inc_def)
qed

text \<open>The upstream answers 503 to a fresh collector.\<close>

theorem Collect_failed_fetch_witness:
  "outcome example_deps
     (NewClusterHealth example_deps [] (example_client (Inr (example_response 503 []))) example_url)
     = UnexpectedStatus \<and>
   length (snd (Collect example_deps
     (NewClusterHealth example_deps [] (example_client (Inr (example_response 503 []))) example_url)))
     = 3 \<and>
   filter (\<lambda>m. is_field_sample
       (NewClusterHealth example_deps [] (example_client (Inr (example_response 503 []))) example_url) m \<or>
     is_status_sample
       (NewClusterHealth example_deps [] (example_client (Inr (example_response 503 []))) example_url) m)
     (snd (Collect example_deps
       (NewClusterHealth example_deps [] (example_client (Inr (example_response 503 []))) example_url)))
     = [] \<and>
   gaugeVal (up (fst (Collect example_deps
     (NewClusterHealth example_deps [] (example_client (Inr (example_response 503 []))) example_url))))
     = 0 \<and>
   counterVal (totalScrapes (fst (Collect example_deps
     (NewClusterHealth example_deps [] (example_client (Inr (example_response 503 []))) example_url))))
     = 1"
proof -
  let ?c = "NewClusterHealth example_deps [] (example_client (Inr (example_response 503 []))) example_url"
  have o: "outcome example_deps ?c = UnexpectedStatus"
    by (simp add: outcome_def upstream_def NewClusterHealth_def example_client_def
        example_response_def)
  have t: "counterVal (totalScrapes ?c) = 0"
    by (simp add: NewClusterHealth_def NewCounter_def)
  from o have h: "outcome example_deps ?c = TransportError \<or>
    outcome example_deps ?c = UnexpectedStatus \<or>
    outcome example_deps ?c = BodyReadError \<or> outcome example_deps ?c = DecodeError"
    by simp
  from Collect_failed_fetch [OF h] have
    "snd (Collect example_deps ?c) =
      [GaugeMetric (up (fst (Collect example_deps ?c))),
       CounterMetric (totalScrapes (fst (Collect example_deps ?c))),
       CounterMetric (jsonParseFailures (fst (Collect example_deps ?c)))]"
    and "gaugeVal (up (fst (Collect example_deps ?c))) = 0"
    and "counterVal (totalScrapes (fst (Collect example_deps ?c))) = counterVal (totalScrapes ?c) + 1"
    by simp_all
  with o t show ?thesis by simp
qed


subsection \<open>C3: the parse-failure counter\<close>

text \<open>
  Claim C3, as amended. A call of \<open>fetchAndDecodeClusterHealth\<close> increments
  \<open>jsonParseFailures\<close> exactly once when the body of a 200 response cannot be read
  (\<open>ioutil.ReadAll\<close> returns an error) or does not decode, and leaves it as it was when
  the GET itself fails (\<open>client.Get\<close> returns an error), when the status is not 200, and
  when the fetch succeeds. As the claim is worded, with no increment on any transport
  error, it does not hold: a connection that fails while the body of a 200 response is
  read is counted, as the evaluation after the theorem shows.
\<close>

theorem fetch_counts_parse_failures:
  "(outcome d c = DecodeError \<longrightarrow>
      counterVal (jsonParseFailures (fst (fetchAndDecodeClusterHealth d c))) =
        counterVal (jsonParseFailures c) + 1) \<and>
   (outcome d c = TransportError \<longrightarrow>
      counterVal (jsonParseFailures (fst (fetchAndDecodeClusterHealth d c))) =
        counterVal (jsonParseFailures c)) \<and>
   (outcome d c = UnexpectedStatus \<longrightarrow>
      counterVal (jsonParseFailures (fst (fetchAndDecodeClusterHealth d c))) =
        counterVal (jsonParseFailures c)) \<and>
   (outcome d c = BodyReadError \<longrightarrow>
      counterVal (jsonParseFailures (fst (fetchAndDecodeClusterHealth d c))) =
        counterVal (jsonParseFailures c) + 1) \<and>
   (outcome d c = Success \<longrightarrow>
      counterVal (jsonParseFailures (fst (fetchAndDecodeClusterHealth d c))) =
        counterVal (jsonParseFailures c))"
  by (simp add: fetch_jsonParseFailures)

text \<open>A body that is no JSON, a refused connection and a 503, each on a fresh collector.\<close>

theorem fetch_counts_parse_failures_witness:
  "outcome example_deps
     (NewClusterHealth example_deps [] (example_client (Inr (example_response 200 ''<html>''))) example_url)
     = DecodeError \<and>
   counterVal (jsonParseFailures (fst (fetchAndDecodeClusterHealth example_deps
     (NewClusterHealth example_deps [] (example_client (Inr (example_response 200 ''<html>''))) example_url))))
     = 1 \<and>
   outcome example_deps
     (NewClusterHealth example_deps [] (example_client (Inl ''connection refused'')) example_url)
     = TransportError \<and>
   counterVal (jsonParseFailures (fst (fetchAndDecodeClusterHealth example_deps
     (NewClusterHealth example_deps [] (example_client (Inl ''connection refused'')) example_url))))
     = 0 \<and>
   outcome example_deps
     (NewClusterHealth example_deps [] (example_client (Inr (example_response 503 []))) example_url)
     = UnexpectedStatus \<and>
   counterVal (jsonParseFailures (fst (fetchAndDecodeClusterHealth example_deps
     (NewClusterHealth example_deps [] (example_client (Inr (example_response 503 []))) example_url))))
     = 0"
proof -
  let ?bad = "NewClusterHealth example_deps [] (example_client (Inr (example_response 200 ''<html>''))) example_url"
  let ?down = "NewClusterHealth example_deps [] (example_client (Inl ''connection refused'')) example_url"
  let ?busy = "NewClusterHealth example_deps [] (example_client (Inr (example_response 503 []))) example_url"
  have o1: "outcome example_deps ?bad = DecodeError"
    by (simp add: outcome_def upstream_def NewClusterHealth_def example_client_def
        example_response_def example_deps_def)
  have o2: "outcome example_deps ?down = TransportError"
    by (simp add: outcome_def upstream_def NewClusterHealth_def example_client_def)
  have o3: "outcome example_deps ?busy = UnexpectedStatus"
    by (simp add: outcome_def upstream_def NewClusterHealth_def example_client_def
        example_response_def)
  have z: "counterVal (jsonParseFailures ?bad) = 0" "counterVal (jsonParseFailures ?down) = 0"
    "counterVal (jsonParseFailures ?busy) = 0"
    by (simp_all add: NewClusterHealth_def NewCounter_def)
  from fetch_counts_parse_failures [of example_deps ?bad] o1 z(1)
  have "counterVal (jsonParseFailures (fst (fetchAndDecodeClusterHealth example_deps ?bad))) = 1"
    by simp
  moreover from fetch_counts_parse_failures [of example_deps ?down] o2 z(2)
  have "counterVal (jsonParseFailures (fst (fetchAndDecodeClusterHealth example_deps ?down))) = 0"
    by simp
  moreover from fetch_counts_parse_failures [of example_deps ?busy] o3 z(3)
  have "counterVal (jsonParseFailures (fst (fetchAndDecodeClusterHealth example_deps ?busy))) = 0"
    by simp
  ultimately show ?thesis using o1 o2 o3 by simp
qed

text \<open>
  Claim C3 as worded fails here. The upstream answers 200 and the connection is reset
  while the body is read, after the bytes \<open>{}\<close>, which the decoder accepts: the fetch
  returns the error of the connection, not one of the decoder, and the counter goes from 0
  to 1.
\<close>

theorem fetch_counts_parse_failures_counterexample:
  "upstream example_deps
     (NewClusterHealth example_deps [] (example_client (Inr (example_reset_response ''{}'')))
        example_url)
     = Inr (example_reset_response ''{}'') \<and>
   StatusCode (example_reset_response ''{}'') = 200 \<and>
   ReadAll (Body (example_reset_response ''{}'')) =
     (''{}'', Some ''read tcp: connection reset by peer'') \<and>
   json_Unmarshal example_deps ''{}'' zeroClusterHealthResponse =
     (zeroClusterHealthResponse, None) \<and>
   snd (snd (fetchAndDecodeClusterHealth example_deps
     (NewClusterHealth example_deps [] (example_client (Inr (example_reset_response ''{}'')))
        example_url)))
     = Some ''read tcp: connection reset by peer'' \<and>
   counterVal (jsonParseFailures
     (NewClusterHealth example_deps [] (example_client (Inr (example_reset_response ''{}'')))
        example_url)) = 0 \<and>
   counterVal (jsonParseFailures (fst (fetchAndDecodeClusterHealth example_deps
     (NewClusterHealth example_deps [] (example_client (Inr (example_reset_response ''{}'')))
        example_url)))) = 1 \<and>
   counterVal (jsonParseFailures (fst (fetchAndDecodeClusterHealth example_deps
     (NewClusterHealth example_deps [] (example_client (Inr (example_reset_response ''{}'')))
        example_url)))) \<noteq>
   counterVal (jsonParseFailures
     (NewClusterHealth example_deps [] (example_client (Inr (example_reset_response ''{}'')))
        example_url))"
proof -
  let ?c = "NewClusterHealth example_deps [] (example_client (Inr (example_reset_response ''{}'')))
        example_url"
  have u: "upstream example_deps ?c = Inr (example_reset_response ''{}'')"
    by (simp add: upstream_def NewClusterHealth_def example_client_def)
  have s: "StatusCode (example_reset_response ''{}'') = 200"
    by (simp add: example_reset_response_def)
  have r: "ReadAll (Body (example_reset_response ''{}'')) =
      (''{}'', Some ''read tcp: connection reset by peer'')"
    by (simp add: example_reset_response_def)
  have j: "json_Unmarshal example_deps ''{}'' zeroClusterHealthResponse =
      (zeroClusterHealthResponse, None)"
    by (simp add: example_deps_def)
  have z: "counterVal (jsonParseFailures ?c) = 0"
    by (simp add: NewClusterHealth_def NewCounter_def)
  note f = fetch_read_error [OF u s r]
  have e: "snd (snd (fetchAndDecodeClusterHealth example_deps ?c)) =
      Some ''read tcp: connection reset by peer''"
    by (simp add: f)
  have n: "counterVal (jsonParseFailures (fst (fetchAndDecodeClusterHealth example_deps ?c))) = 1"
    by (simp add: f Inc_def z)
  from u s r j e z n show ?thesis by simp
qed

subsection \<open>C7: the error of a status other than 200\<close>

text \<open>
  Claim C7. When the GET is answered and the status code is not 200, the fetch returns an
  error, and the error carries the code: its message is \<open>HTTP Request failed with code\<close>
  followed by the code in decimal, so two such fetches that return the same error observed
  the same code.
\<close>

theorem fetch_status_error_carries_code:
  assumes "upstream d c = Inr res" and "StatusCode res \<noteq> 200"
  shows "snd (snd (fetchAndDecodeClusterHealth d c)) =
      Some (''HTTP Request failed with code '' @ fmt_d (StatusCode res)) \<and>
    (\<forall>d' c' res'.
       upstream d' c' = Inr res' \<and> StatusCode res' \<noteq> 200 \<and>
       snd (snd (fetchAndDecodeClusterHealth d' c')) = snd (snd (fetchAndDecodeClusterHealth d c))
       \<longrightarrow> StatusCode res' = StatusCode res)"
proof (intro conjI allI impI)
  show e: "snd (snd (fetchAndDecodeClusterHealth d c)) =
      Some (''HTTP Request failed with code '' @ fmt_d (StatusCode res))"
    using fetch_status_error [OF assms] by simp
  fix d' c' res'
  assume h: "upstream d' c' = Inr res' \<and> StatusCode res' \<noteq> 200 \<and>
       snd (snd (fetchAndDecodeClusterHealth d' c')) = snd (snd (fetchAndDecodeClusterHealth d c))"
  then have "snd (snd (fetchAndDecodeClusterHealth d' c')) =
      Some (''HTTP Request failed with code '' @ fmt_d (StatusCode res'))"
    using fetch_status_error [of d' c' res'] by simp
  with h e have "fmt_d (StatusCode res') = fmt_d (StatusCode res)" by simp
  then show "StatusCode res' = StatusCode res" by (rule fmt_d_inj)
qed

text \<open>The upstream answers 503.\<close>

theorem fetch_status_error_carries_code_witness:
  "upstream example_deps
     (NewClusterHealth example_deps [] (example_client (Inr (example_response 503 []))) example_url)
     = Inr (example_response 503 []) \<and>
   StatusCode (example_response 503 []) = 503 \<and>
   snd (snd (fetchAndDecodeClusterHealth example_deps
     (NewClusterHealth example_deps [] (example_client (Inr (example_response 503 []))) example_url)))
     = Some ''HTTP Request failed with code 503''"
proof -
  let ?c = "NewClusterHealth example_deps [] (example_client (Inr (example_response 503 []))) example_url"
  have u: "upstream example_deps ?c = Inr (example_response 503 [])"
    by (simp add: upstream_def NewClusterHealth_def example_client_def)
  have s: "StatusCode (example_response 503 []) = 503" "StatusCode (example_response 503 []) \<noteq> 200"
    by (simp_all add: example_response_def)
  have r: "fmt_d 503 = ''503''" by code_simp
  from fetch_status_error_carries_code [OF u s(2)] s(1) r u show ?thesis
    by simp
qed


subsection \<open>C1: the status samples of a successful fetch\<close>

text \<open>
  Claim C1. When the fetch succeeds with a snapshot, Collect sends exactly three status
  samples, one for each of \<open>green\<close>, \<open>yellow\<close> and \<open>red\<close>, in that order; the sample
  for a colour is 1 if the snapshot's status string equals the colour and 0 otherwise. So
  exactly one sample is 1 (and two are 0) when the status is one of the three colours, and
  all three are 0 when it is none of them. The fetch is the one Collect makes: what a fetch
  returns does not depend on the scrape counter Collect increments before it
  (\<open>fetch_result_totalScrapes\<close>), and it returns no error exactly in the outcome
  \<open>Success\<close> (\<open>outcome_Success_iff\<close>).
\<close>

theorem Collect_status_one_hot:
  assumes "constructed d c" and "snd (fetchAndDecodeClusterHealth d c) = (chr, None)"
  shows "filter (is_status_sample c) (snd (Collect d c)) =
      map (\<lambda>color. ConstMetric (StatusDesc (statusMetric c)) GaugeValue
                     (if Status chr = color then 1 else 0) [ClusterName chr, color])
        [''green'', ''yellow'', ''red''] \<and>
    length (filter (\<lambda>m. sample_value m = 1) (filter (is_status_sample c) (snd (Collect d c)))) =
      (if Status chr \<in> set colors then 1 else 0) \<and>
    length (filter (\<lambda>m. sample_value m = 0) (filter (is_status_sample c) (snd (Collect d c)))) =
      (if Status chr \<in> set colors then 2 else 3)"
proof -
  note st = Collect_success_samples(2) [OF assms(2) constructed_descs [OF assms(1)]]
  show ?thesis
    unfolding st constructed_statusMetric [OF assms(1)]
    by (simp add: colors_def)
qed

text \<open>The snapshot of cluster \<open>prod\<close> with status \<open>yellow\<close>.\<close>

theorem Collect_status_one_hot_witness:
  "constructed (example_deps_decoding ''{cluster_name:prod,status:yellow,active_primary_shards:12}''
       (example_snapshot ''prod'' ''yellow'' 12))
     (NewClusterHealth
       (example_deps_decoding ''{cluster_name:prod,status:yellow,active_primary_shards:12}''
         (example_snapshot ''prod'' ''yellow'' 12)) []
       (example_client (Inr (example_response 200
          ''{cluster_name:prod,status:yellow,active_primary_shards:12}''))) example_url) \<and>
   map (\<lambda>m. (sample_labels m, sample_value m))
     (filter (is_status_sample (NewClusterHealth
       (example_deps_decoding ''{cluster_name:prod,status:yellow,active_primary_shards:12}''
         (example_snapshot ''prod'' ''yellow'' 12)) []
       (example_client (Inr (example_response 200
          ''{cluster_name:prod,status:yellow,active_primary_shards:12}''))) example_url))
       (snd (Collect
         (example_deps_decoding ''{cluster_name:prod,status:yellow,active_primary_shards:12}''
           (example_snapshot ''prod'' ''yellow'' 12))
         (NewClusterHealth
           (example_deps_decoding ''{cluster_name:prod,status:yellow,active_primary_shards:12}''
             (example_snapshot ''prod'' ''yellow'' 12)) []
           (example_client (Inr (example_response 200
              ''{cluster_name:prod,status:yellow,active_primary_shards:12}''))) example_url))))
     = [([''prod'', ''green''], 0), ([''prod'', ''yellow''], 1), ([''prod'', ''red''], 0)]"
proof -
  let ?b = "''{cluster_name:prod,status:yellow,active_primary_shards:12}''"
  let ?r = "example_snapshot ''prod'' ''yellow'' 12"
  let ?d = "example_deps_decoding ?b ?r"
  let ?c = "NewClusterHealth ?d [] (example_client (Inr (example_response 200 ?b))) example_url"
  have k: "constructed ?d ?c" by (rule constructed_New)
  have u: "upstream ?d ?c = Inr (example_response 200 ?b)"
    by (simp add: upstream_def NewClusterHealth_def example_client_def)
  have f: "snd (fetchAndDecodeClusterHealth ?d ?c) = (?r, None)"
    using fetch_success [OF u, of ?b ?r]
    by (simp add: example_response_def example_deps_decoding_def)
  have s: "Status ?r = ''yellow''" "ClusterName ?r = ''prod''"
    by (simp_all add: example_snapshot_def)
  from Collect_status_one_hot [OF k f] k show ?thesis
    by (simp add: s)
qed


subsection \<open>C4: the field samples of a successful fetch\<close>

text \<open>
  Claim C4. When the fetch succeeds with a snapshot, Collect sets \<open>up\<close> to 1 and sends
  exactly one field sample for each entry of the field table, in the table's order: the
  sample has the entry's description and type, its value is the entry's extraction function
  applied to the snapshot, and its one label value is the snapshot's cluster name.
\<close>

theorem Collect_field_samples:
  assumes "constructed d c" and "snd (fetchAndDecodeClusterHealth d c) = (chr, None)"
  shows "gaugeVal (up (fst (Collect d c))) = 1 \<and>
    filter (is_field_sample c) (snd (Collect d c)) =
      map (\<lambda>metric. ConstMetric (Desc metric) (Type metric) (Value metric chr) [ClusterName chr])
        (metrics c) \<and>
    length (filter (is_field_sample c) (snd (Collect d c))) = length (metrics c) \<and>
    (\<forall>m \<in> set (filter (is_field_sample c) (snd (Collect d c))).
       sample_labels m = [ClusterName chr])"
proof -
  note fs = Collect_success_samples(1,3) [OF assms(2) constructed_descs [OF assms(1)]]
  show ?thesis
    unfolding fs by auto
qed

text \<open>The snapshot of cluster \<open>prod\<close> with 12 active primary shards.\<close>

theorem Collect_field_samples_witness:
  "constructed (example_deps_decoding ''{cluster_name:prod,status:yellow,active_primary_shards:12}''
       (example_snapshot ''prod'' ''yellow'' 12))
     (NewClusterHealth
       (example_deps_decoding ''{cluster_name:prod,status:yellow,active_primary_shards:12}''
         (example_snapshot ''prod'' ''yellow'' 12)) []
       (example_client (Inr (example_response 200
          ''{cluster_name:prod,status:yellow,active_primary_shards:12}''))) example_url) \<and>
   gaugeVal (up (fst (Collect
         (example_deps_decoding ''{cluster_name:prod,status:yellow,active_primary_shards:12}''
           (example_snapshot ''prod'' ''yellow'' 12))
         (NewClusterHealth
           (example_deps_decoding ''{cluster_name:prod,status:yellow,active_primary_shards:12}''
             (example_snapshot ''prod'' ''yellow'' 12)) []
           (example_client (Inr (example_response 200
              ''{cluster_name:prod,status:yellow,active_primary_shards:12}''))) example_url)))) = 1 \<and>
   map (\<lambda>m. (sample_labels m, sample_value m))
     (filter (is_field_sample (NewClusterHealth
       (example_deps_decoding ''{cluster_name:prod,status:yellow,active_primary_shards:12}''
         (example_snapshot ''prod'' ''yellow'' 12)) []
       (example_client (Inr (example_response 200
          ''{cluster_name:prod,status:yellow,active_primary_shards:12}''))) example_url))
       (snd (Collect
         (example_deps_decoding ''{cluster_name:prod,status:yellow,active_primary_shards:12}''
           (example_snapshot ''prod'' ''yellow'' 12))
         (NewClusterHealth
           (example_deps_decoding ''{cluster_name:prod,status:yellow,active_primary_shards:12}''
             (example_snapshot ''prod'' ''yellow'' 12)) []
           (example_client (Inr (example_response 200
              ''{cluster_name:prod,status:yellow,active_primary_shards:12}''))) example_url))))
     = [([''prod''], 12), ([''prod''], 0), ([''prod''], 0), ([''prod''], 0), ([''prod''], 0),
        ([''prod''], 0), ([''prod''], 0), ([''prod''], 0), ([''prod''], 0), ([''prod''], 0),
        ([''prod''], 0)]"
proof -
  let ?b = "''{cluster_name:prod,status:yellow,active_primary_shards:12}''"
  let ?r = "example_snapshot ''prod'' ''yellow'' 12"
  let ?d = "example_deps_decoding ?b ?r"
  let ?c = "NewClusterHealth ?d [] (example_client (Inr (example_response 200 ?b))) example_url"
  have k: "constructed ?d ?c" by (rule constructed_New)
  have u: "upstream ?d ?c = Inr (example_response 200 ?b)"
    by (simp add: upstream_def NewClusterHealth_def example_client_def)
  have f: "snd (fetchAndDecodeClusterHealth ?d ?c) = (?r, None)"
    using fetch_success [OF u, of ?b ?r]
    by (simp add: example_response_def example_deps_decoding_def)
  have m: "map (\<lambda>metric. ([ClusterName ?r], Value metric ?r)) (metrics ?c) =
     [([''prod''], 12), ([''prod''], 0), ([''prod''], 0), ([''prod''], 0), ([''prod''], 0),
        ([''prod''], 0), ([''prod''], 0), ([''prod''], 0), ([''prod''], 0), ([''prod''], 0),
        ([''prod''], 0)]"
    by (simp add: NewClusterHealth_def example_snapshot_def zeroClusterHealthResponse_def
        float64_def)
  from Collect_field_samples [OF k f] have
    "gaugeVal (up (fst (Collect ?d ?c))) = 1"
    and "filter (is_field_sample ?c) (snd (Collect ?d ?c)) =
      map (\<lambda>metric. ConstMetric (Desc metric) (Type metric) (Value metric ?r) [ClusterName ?r])
        (metrics ?c)"
    by simp_all
  with k m show ?thesis
    by (simp add: o_def)
qed


subsection \<open>C9: the comparison of the status string\<close>

text \<open>
  Claim C9. The status metric compares the snapshot's status string with a colour by
  equality of strings, byte for byte. So when the status differs from one of the three
  colours only in the case of its letters or in white space (as \<open>Green\<close>, \<open>GREEN\<close> or
  \<open> green \<close> differ from \<open>green\<close>), the sample for that colour is 0, the samples for
  all three colours are 0, and a Collect call whose fetch returns such a snapshot sends
  three status samples of value 0.
\<close>

theorem status_comparison_exact:
  assumes "constructed d c" and "col \<in> set colors" and "Status chr \<noteq> col"
    and "fold_case_space (Status chr) = fold_case_space col"
  shows "(\<forall>color. StatusValue (statusMetric c) chr color = (if Status chr = color then 1 else 0)) \<and>
    StatusValue (statusMetric c) chr col = 0 \<and>
    (\<forall>color \<in> set colors. StatusValue (statusMetric c) chr color = 0) \<and>
    (snd (fetchAndDecodeClusterHealth d c) = (chr, None) \<longrightarrow>
       map sample_value (filter (is_status_sample c) (snd (Collect d c))) = [0, 0, 0])"
proof -
  note sv = constructed_statusMetric(2) [OF assms(1)]
  from fold_case_space_not_color [OF assms(2,3,4)] have out: "Status chr \<notin> set colors" .
  have a: "\<forall>color. StatusValue (statusMetric c) chr color = (if Status chr = color then 1 else 0)"
    by (simp add: sv)
  have b: "StatusValue (statusMetric c) chr col = 0"
    using assms(3) by (simp add: sv)
  have e: "\<forall>color \<in> set colors. StatusValue (statusMetric c) chr color = 0"
    using out by (auto simp: sv)
  have f: "map sample_value (filter (is_status_sample c) (snd (Collect d c))) = [0, 0, 0]"
    if ok: "snd (fetchAndDecodeClusterHealth d c) = (chr, None)"
  proof -
    note st = Collect_success_samples(2) [OF ok constructed_descs [OF assms(1)]]
    from e show ?thesis
      unfolding st by (simp add: colors_def)
  qed
  from a b e f show ?thesis by blast
qed

text \<open>The upstream reports the status \<open>Green\<close>.\<close>

theorem status_comparison_exact_witness:
  "constructed (example_deps_decoding ''{cluster_name:prod,status:Green}''
       (example_snapshot ''prod'' ''Green'' 12))
     (NewClusterHealth
       (example_deps_decoding ''{cluster_name:prod,status:Green}''
         (example_snapshot ''prod'' ''Green'' 12)) []
       (example_client (Inr (example_response 200 ''{cluster_name:prod,status:Green}'')))
       example_url) \<and>
   ''green'' \<in> set colors \<and>
   Status (example_snapshot ''prod'' ''Green'' 12) \<noteq> ''green'' \<and>
   fold_case_space (Status (example_snapshot ''prod'' ''Green'' 12)) = fold_case_space ''green'' \<and>
   fold_case_space ''GREEN'' = fold_case_space ''green'' \<and>
   fold_case_space '' green '' = fold_case_space ''green'' \<and>
   map sample_value
     (filter (is_status_sample (NewClusterHealth
       (example_deps_decoding ''{cluster_name:prod,status:Green}''
         (example_snapshot ''prod'' ''Green'' 12)) []
       (example_client (Inr (example_response 200 ''{cluster_name:prod,status:Green}'')))
       example_url))
       (snd (Collect
         (example_deps_decoding ''{cluster_name:prod,status:Green}''
           (example_snapshot ''prod'' ''Green'' 12))
         (NewClusterHealth
           (example_deps_decoding ''{cluster_name:prod,status:Green}''
             (example_snapshot ''prod'' ''Green'' 12)) []
           (example_client (Inr (example_response 200 ''{cluster_name:prod,status:Green}'')))
           example_url))))
     = [0, 0, 0]"
proof -
  let ?b = "''{cluster_name:prod,status:Green}''"
  let ?r = "example_snapshot ''prod'' ''Green'' 12"
  let ?d = "example_deps_decoding ?b ?r"
  let ?c = "NewClusterHealth ?d [] (example_client (Inr (example_response 200 ?b))) example_url"
  have k: "constructed ?d ?c" by (rule constructed_New)
  have u: "upstream ?d ?c = Inr (example_response 200 ?b)"
    by (simp add: upstream_def NewClusterHealth_def example_client_def)
  have f: "snd (fetchAndDecodeClusterHealth ?d ?c) = (?r, None)"
    using fetch_success [OF u, of ?b ?r]
    by (simp add: example_response_def example_deps_decoding_def)
  have g: "''green'' \<in> set colors" by (simp add: colors_def)
  have n: "Status ?r \<noteq> ''green''" by (simp add: example_snapshot_def)
  have s: "Status ?r = ''Green''" by (simp add: example_snapshot_def)
  have e1: "fold_case_space ''Green'' = fold_case_space ''green''" by code_simp
  have e2: "fold_case_space ''GREEN'' = fold_case_space ''green''" by code_simp
  have e3: "fold_case_space '' green '' = fold_case_space ''green''" by code_simp
  from e1 s have e: "fold_case_space (Status ?r) = fold_case_space ''green''" by simp
  from status_comparison_exact [OF k g n e] f
  have "map sample_value (filter (is_status_sample ?c) (snd (Collect ?d ?c))) = [0, 0, 0]"
    by blast
  with k g n e e2 e3 show ?thesis by blast
qed


subsection \<open>C8: eleven entries, and the percentage of active shards\<close>

text \<open>
  Claim C8. The field table \<open>NewClusterHealth\<close> builds has exactly eleven entries, and
  none of them reads the snapshot's field \<open>ActiveShardsPercentAsNumber\<close>: no entry's
  value, and no status value, changes when that field changes. So whatever the decoder
  stores in it, Collect returns the same collector and sends the same samples: the field
  is never sent as a metric.
\<close>

theorem percent_has_no_metric:
  assumes "constructed d c"
  shows "length (metrics c) = 11 \<and>
    (\<forall>m \<in> set (metrics c). \<forall>chr x.
       Value m (chr\<lparr>ActiveShardsPercentAsNumber := x\<rparr>) = Value m chr) \<and>
    (\<forall>chr x color.
       StatusValue (statusMetric c) (chr\<lparr>ActiveShardsPercentAsNumber := x\<rparr>) color =
       StatusValue (statusMetric c) chr color) \<and>
    (\<forall>x. Collect
           (d\<lparr>json_Unmarshal := (\<lambda>bts z. case json_Unmarshal d bts z of
                (r, e) \<Rightarrow> (r\<lparr>ActiveShardsPercentAsNumber := x\<rparr>, e))\<rparr>) c =
         Collect d c)"
proof -
  have n: "length (metrics c) = 11"
    using assms by (simp add: constructed_def NewClusterHealth_def)
  have v: "\<forall>m \<in> set (metrics c). \<forall>chr x.
       Value m (chr\<lparr>ActiveShardsPercentAsNumber := x\<rparr>) = Value m chr"
    using assms by (simp add: constructed_def NewClusterHealth_def)
  have s: "\<forall>chr x color.
       StatusValue (statusMetric c) (chr\<lparr>ActiveShardsPercentAsNumber := x\<rparr>) color =
       StatusValue (statusMetric c) chr color"
    by (simp add: constructed_statusMetric(2) [OF assms])
  have e: "Collect
           (d\<lparr>json_Unmarshal := (\<lambda>bts z. case json_Unmarshal d bts z of
                (r, e) \<Rightarrow> (r\<lparr>ActiveShardsPercentAsNumber := x\<rparr>, e))\<rparr>) c =
         Collect d c" for x
  proof -
    let ?d' = "d\<lparr>json_Unmarshal := (\<lambda>bts z. case json_Unmarshal d bts z of
                (r, e) \<Rightarrow> (r\<lparr>ActiveShardsPercentAsNumber := x\<rparr>, e))\<rparr>"
    let ?c0 = "c\<lparr>totalScrapes := Inc (totalScrapes c)\<rparr>"
    obtain c1 chr err where f: "fetchAndDecodeClusterHealth d ?c0 = (c1, chr, err)"
      by (cases "fetchAndDecodeClusterHealth d ?c0") auto
    with fetch_percent [where d = d and x = x and c = ?c0] obtain y where
      f': "fetchAndDecodeClusterHealth ?d' ?c0 =
        (c1, chr\<lparr>ActiveShardsPercentAsNumber := y\<rparr>, err)"
      by auto
    show ?thesis
    proof (cases err)
      case (Some e)
      from Collect_failure [OF f [unfolded Some]] Collect_failure [OF f' [unfolded Some]]
      show ?thesis by simp
    next
      case None
      from Collect_success [OF f [unfolded None]] Collect_success [OF f' [unfolded None]]
      show ?thesis using v s by simp
    qed
  qed
  from n v s e show ?thesis by blast
qed

text \<open>A snapshot whose percentage is 50, and the same with 100 stored in its place.\<close>

theorem percent_has_no_metric_witness:
  "constructed (example_deps_decoding ''{cluster_name:prod,active_shards_percent_as_number:50}''
       ((example_snapshot ''prod'' ''green'' 12)\<lparr>ActiveShardsPercentAsNumber := 50\<rparr>))
     (NewClusterHealth
       (example_deps_decoding ''{cluster_name:prod,active_shards_percent_as_number:50}''
         ((example_snapshot ''prod'' ''green'' 12)\<lparr>ActiveShardsPercentAsNumber := 50\<rparr>)) []
       (example_client (Inr (example_response 200
          ''{cluster_name:prod,active_shards_percent_as_number:50}''))) example_url) \<and>
   length (metrics (NewClusterHealth
       (example_deps_decoding ''{cluster_name:prod,active_shards_percent_as_number:50}''
         ((example_snapshot ''prod'' ''green'' 12)\<lparr>ActiveShardsPercentAsNumber := 50\<rparr>)) []
       (example_client (Inr (example_response 200
          ''{cluster_name:prod,active_shards_percent_as_number:50}''))) example_url)) = 11 \<and>
   Collect
     ((example_deps_decoding ''{cluster_name:prod,active_shards_percent_as_number:50}''
         ((example_snapshot ''prod'' ''green'' 12)\<lparr>ActiveShardsPercentAsNumber := 50\<rparr>))
       \<lparr>json_Unmarshal := (\<lambda>bts z.
           case json_Unmarshal
             (example_deps_decoding ''{cluster_name:prod,active_shards_percent_as_number:50}''
               ((example_snapshot ''prod'' ''green'' 12)\<lparr>ActiveShardsPercentAsNumber := 50\<rparr>))
             bts z of
           (r, e) \<Rightarrow> (r\<lparr>ActiveShardsPercentAsNumber := 100\<rparr>, e))\<rparr>)
     (NewClusterHealth
       (example_deps_decoding ''{cluster_name:prod,active_shards_percent_as_number:50}''
         ((example_snapshot ''prod'' ''green'' 12)\<lparr>ActiveShardsPercentAsNumber := 50\<rparr>)) []
       (example_client (Inr (example_response 200
          ''{cluster_name:prod,active_shards_percent_as_number:50}''))) example_url)
   = Collect
     (example_deps_decoding ''{cluster_name:prod,active_shards_percent_as_number:50}''
         ((example_snapshot ''prod'' ''green'' 12)\<lparr>ActiveShardsPercentAsNumber := 50\<rparr>))
     (NewClusterHealth
       (example_deps_decoding ''{cluster_name:prod,active_shards_percent_as_number:50}''
         ((example_snapshot ''prod'' ''green'' 12)\<lparr>ActiveShardsPercentAsNumber := 50\<rparr>)) []
       (example_client (Inr (example_response 200
          ''{cluster_name:prod,active_shards_percent_as_number:50}''))) example_url)"
proof -
  let ?b = "''{cluster_name:prod,active_shards_percent_as_number:50}''"
  let ?r = "(example_snapshot ''prod'' ''green'' 12)\<lparr>ActiveShardsPercentAsNumber := 50\<rparr>"
  let ?d = "example_deps_decoding ?b ?r"
  let ?c = "NewClusterHealth ?d [] (example_client (Inr (example_response 200 ?b))) example_url"
  have k: "constructed ?d ?c" by (rule constructed_New)
  from percent_has_no_metric [OF k] k show ?thesis by blast
qed

end
